theory Spec2Isabelle
  imports Main
begin

section \<open>Python values, payloads and exceptions\<close>

text \<open>
  The values stored in the dictionaries the module builds (result envelopes and template
  contexts): booleans, integers and strings.
\<close>

datatype pyval = PBool bool | PInt int | PStr string

type_synonym dict = "string \<rightharpoonup> pyval"

text \<open>The request dictionary \<open>get\<close>: a mapping from strings to strings.\<close>

type_synonym payload = "string \<rightharpoonup> string"

text \<open>
  The exceptions that can leave a method. \<open>ValueError\<close> carries the value formatted into
  its message (the offending state, or the tag of the missing child), \<open>KeyError\<close> the
  key that was looked up, and \<open>IndexError\<close> is raised by \<open>[-1]\<close> and \<open>[0]\<close> on an
  empty list.
\<close>

datatype error = ValueError string | KeyError string | IndexError

section \<open>The instance: state, history and counters\<close>

record attempt_record =
  answer :: string
  score :: "int option"
  hint :: "string option"

record self_assessment_module =
  state :: string
  history :: "attempt_record list"
  attempts :: int
  max_attempts :: int
  max_score_attr :: int
  prompt :: string
  rubric :: string
  hint_prompt :: string
  submit_message :: string

text \<open>
  The collaborators the module calls whose code is not part of the sources:
  \<open>system.render_template\<close>, \<open>CombinedOpenEndedRubric.render_rubric\<close>,
  \<open>get_progress\<close> of the base class, \<open>Progress.to_js_status_str\<close>, the wording of the
  out-of-sync message and \<open>stringify_children\<close>. They are parameters of the model; the
  type \<open>'p\<close> is the type of progress values, compared with \<open>!=\<close> in \<open>handle_ajax\<close>.

  The builtin \<open>int\<close> applied to a string is a parameter too, \<open>py_int\<close>: it returns the
  integer or raises ValueError, which is \<open>None\<close>. Which strings it accepts depends on
  the interpreter and on the string type (the whitespace that is stripped around the
  literal, such as U+0085 and U+00A0 in text strings, and digit separators), so nothing
  is assumed about it: every statement below holds for whatever \<open>int\<close> accepts.
\<close>

datatype xml = Element (tag: string) (text_of: string) (children: "xml list")

record 'p system =
  render_template :: "string \<Rightarrow> dict \<Rightarrow> string"
  render_rubric :: "string \<Rightarrow> string"
  get_progress :: "self_assessment_module \<Rightarrow> 'p"
  to_js_status_str :: "'p \<Rightarrow> string"
  out_of_sync_text :: "payload \<Rightarrow> string"
  stringify_children :: "xml \<Rightarrow> string"
  py_int :: "string \<Rightarrow> int option"

text \<open>
  Modelled from the spec: the four values of WorkflowState (spec section 3). The constants
  \<open>INITIAL\<close>, \<open>ASSESSING\<close>, \<open>POST_ASSESSMENT\<close> and \<open>DONE\<close> are declared by the base class
  \<open>OpenEndedChild\<close>, which is not part of the sources; the state is a string because it is
  read back from persisted instance state and compared with \<open>==\<close> and \<open>in\<close>.
\<close>

definition INITIAL :: string where "INITIAL = ''initial''"
definition ASSESSING :: string where "ASSESSING = ''assessing''"
definition POST_ASSESSMENT :: string where "POST_ASSESSMENT = ''post_assessment''"
definition DONE :: string where "DONE = ''done''"

lemmas state_defs = INITIAL_def ASSESSING_def POST_ASSESSMENT_def DONE_def

section \<open>The base-class operations used by the module\<close>

text \<open>
  Modelled from the spec: \<open>new_history_entry\<close> of \<open>OpenEndedChild\<close> (History Store
  \<open>append(answer)\<close>, spec sections 3 and 4.2): a new AttemptRecord with the answer set and
  score and hint unset is added at the end of the history.
\<close>

definition new_history_entry :: "string \<Rightarrow> self_assessment_module \<Rightarrow> self_assessment_module" where
  "new_history_entry a self =
     self\<lparr>history := history self @ [\<lparr>answer = a, score = None, hint = None\<rparr>]\<rparr>"

text \<open>
  Modelled from the spec: \<open>record_latest_score\<close> of \<open>OpenEndedChild\<close> (History Store
  \<open>set_latest_score(score)\<close>, spec section 4.2): the score of the latest AttemptRecord is
  set. With no record in the history there is no latest record, and indexing the last
  element of an empty Python list raises IndexError.
\<close>

definition record_latest_score ::
  "int \<Rightarrow> self_assessment_module \<Rightarrow> error + self_assessment_module" where
  "record_latest_score sc self =
     (if history self = [] then Inl IndexError
      else Inr (self\<lparr>history := butlast (history self) @ [(last (history self))\<lparr>score := Some sc\<rparr>]\<rparr>))"

text \<open>
  Modelled from the spec: \<open>record_latest_post_assessment\<close> of \<open>OpenEndedChild\<close> (History
  Store \<open>set_latest_hint(hint)\<close>, spec section 4.2): the hint of the latest AttemptRecord
  is set; IndexError on an empty history as above.
\<close>

definition record_latest_post_assessment ::
  "string \<Rightarrow> self_assessment_module \<Rightarrow> error + self_assessment_module" where
  "record_latest_post_assessment h self =
     (if history self = [] then Inl IndexError
      else Inr (self\<lparr>history := butlast (history self) @ [(last (history self))\<lparr>hint := Some h\<rparr>]\<rparr>))"

text \<open>
  Modelled from the spec: \<open>latest_post_assessment\<close> of \<open>OpenEndedChild\<close> (History
  Store \<open>latest_hint()\<close>, spec section 4.2): the hint of the most recent record, or
  none if absent.
\<close>

definition latest_post_assessment :: "self_assessment_module \<Rightarrow> string option" where
  "latest_post_assessment self = (if history self = [] then None else hint (last (history self)))"

text \<open>
  Modelled from the spec: \<open>change_state\<close> of \<open>OpenEndedChild\<close> (spec section 4.1): the
  WorkflowState becomes the new state.
\<close>

definition change_state :: "string \<Rightarrow> self_assessment_module \<Rightarrow> self_assessment_module" where
  "change_state new_state self = self\<lparr>state := new_state\<rparr>"

text \<open>
  Modelled from the spec: \<open>_allow_reset\<close> of \<open>OpenEndedChild\<close> (spec section 4.1): true
  only when the state is DONE and \<open>attempts < max_attempts\<close>.
\<close>

definition allow_reset :: "self_assessment_module \<Rightarrow> bool" where
  "allow_reset self = (state self = DONE \<and> attempts self < max_attempts self)"

text \<open>
  Modelled from the spec: \<open>max_score()\<close> of \<open>OpenEndedChild\<close> (spec section 3): the
  configured ceiling for a correct self-assessment.
\<close>

definition max_score :: "self_assessment_module \<Rightarrow> int" where
  "max_score self = max_score_attr self"

text \<open>
  Modelled from the spec: \<open>out_of_sync_error\<close> of \<open>OpenEndedChild\<close> (spec sections 4.1 and
  7): a structured rejection, an envelope with success false and an error text, built from
  the caller's payload; nothing is mutated.
\<close>

definition out_of_sync_error :: "payload \<Rightarrow> 'p system \<Rightarrow> dict" where
  "out_of_sync_error get system =
     [''success'' \<mapsto> PBool False, ''error'' \<mapsto> PStr (out_of_sync_text system get)]"

text \<open>
  Modelled from the spec: the reset of \<open>OpenEndedChild\<close> (spec section 4.3): the state
  returns to INITIAL, the attempt counter is incremented and the history is kept.
\<close>

definition reset :: "self_assessment_module \<Rightarrow> self_assessment_module" where
  "reset self = self\<lparr>state := INITIAL, attempts := attempts self + 1\<rparr>"

section \<open>A reader of decimal literals\<close>

text \<open>
  One instance of the parameter \<open>py_int\<close>, used to evaluate the actions on concrete
  payloads: the whitespace of a text string is dropped on both sides (the characters
  U+0009 to U+000D, U+001C to U+0020, U+0085 and U+00A0 among the first 256), an optional
  sign follows, then one or more decimal digits, and nothing else; any other string is
  refused.
\<close>

definition is_space :: "char \<Rightarrow> bool" where
  "is_space c =
     (c \<in> set [CHR 0x09, CHR 0x0A, CHR 0x0B, CHR 0x0C, CHR 0x0D,
                CHR 0x1C, CHR 0x1D, CHR 0x1E, CHR 0x1F, CHR 0x20, CHR 0x85, CHR 0xA0])"

definition is_digit :: "char \<Rightarrow> bool" where
  "is_digit c = (c \<in> set ''0123456789'')"

definition digit_value :: "char \<Rightarrow> int" where
  "digit_value c = int (of_char c) - 48"

definition digits_value :: "string \<Rightarrow> int" where
  "digits_value ds = foldl (\<lambda>acc c. 10 * acc + digit_value c) 0 ds"

definition strip :: "string \<Rightarrow> string" where
  "strip s = rev (dropWhile is_space (rev (dropWhile is_space s)))"

definition unsigned_int :: "string \<Rightarrow> int option" where
  "unsigned_int ds = (if ds \<noteq> [] \<and> list_all is_digit ds then Some (digits_value ds) else None)"

definition decimal_int :: "string \<Rightarrow> int option" where
  "decimal_int s =
     (case strip s of
        [] \<Rightarrow> None
      | c # r \<Rightarrow>
          if c = CHR ''-'' then map_option uminus (unsigned_int r)
          else if c = CHR ''+'' then unsigned_int r
          else unsigned_int (c # r))"

section \<open>The view assembly\<close>

text \<open>\<open>get_rubric_html\<close>: the rubric view for the current state.\<close>

definition get_rubric_html :: "'p system \<Rightarrow> self_assessment_module \<Rightarrow> error + string" where
  "get_rubric_html system self =
     (if state self = INITIAL then Inr ''''
      else
        let rubric_html = render_rubric system (rubric self);
            context = [''rubric'' \<mapsto> PStr rubric_html, ''max_score'' \<mapsto> PInt (max_score_attr self)]
        in
          if state self = ASSESSING then
            Inr (render_template system ''self_assessment_rubric.html''
                   (context(''read_only'' \<mapsto> PBool False)))
          else if state self \<in> {POST_ASSESSMENT, DONE} then
            Inr (render_template system ''self_assessment_rubric.html''
                   (context(''read_only'' \<mapsto> PBool True)))
          else Inl (ValueError (state self)))"

text \<open>\<open>get_hint_html\<close>: the hint view for the current state.\<close>

definition get_hint_html :: "'p system \<Rightarrow> self_assessment_module \<Rightarrow> error + string" where
  "get_hint_html system self =
     (if state self \<in> {INITIAL, ASSESSING} then Inr ''''
      else
        let hint_text =
              (if state self = DONE then
                 (case latest_post_assessment self of Some latest \<Rightarrow> latest | None \<Rightarrow> '''')
               else '''');
            context = [''hint_prompt'' \<mapsto> PStr (hint_prompt self), ''hint'' \<mapsto> PStr hint_text]
        in
          if state self = POST_ASSESSMENT then
            Inr (render_template system ''self_assessment_hint.html''
                   (context(''read_only'' \<mapsto> PBool False)))
          else if state self = DONE then
            Inr (render_template system ''self_assessment_hint.html''
                   (context(''read_only'' \<mapsto> PBool True)))
          else Inl (ValueError (state self)))"

text \<open>\<open>get_message_html\<close>: the confirmation message, shown only in DONE.\<close>

definition get_message_html :: "self_assessment_module \<Rightarrow> string" where
  "get_message_html self =
     (if state self \<noteq> DONE then ''''
      else ''<div class='' @ [CHR 0x22] @ ''save_message'' @ [CHR 0x22] @ ''>''
             @ submit_message self @ ''</div>'')"

section \<open>The three actions\<close>

text \<open>
  A method returns its dictionary or raises, and leaves the instance in some state either
  way: the result is a pair of the outcome and the instance after the call.
\<close>

type_synonym outcome = "(error + dict) \<times> self_assessment_module"

definition save_answer :: "payload \<Rightarrow> 'p system \<Rightarrow> self_assessment_module \<Rightarrow> outcome" where
  "save_answer get system self =
     (if attempts self > max_attempts self then
        (Inr [''success'' \<mapsto> PBool False, ''error'' \<mapsto> PStr ''Too many attempts.''], self)
      else if state self \<noteq> INITIAL then (Inr (out_of_sync_error get system), self)
      else
        case get ''student_answer'' of
          None \<Rightarrow> (Inl (KeyError ''student_answer''), self)
        | Some a \<Rightarrow>
            let self1 = new_history_entry a self;
                self2 = change_state ASSESSING self1
            in (case get_rubric_html system self2 of
                  Inl e \<Rightarrow> (Inl e, self2)
                | Inr rubric_html \<Rightarrow>
                    (Inr [''success'' \<mapsto> PBool True, ''rubric_html'' \<mapsto> PStr rubric_html],
                     self2)))"

definition save_assessment :: "payload \<Rightarrow> 'p system \<Rightarrow> self_assessment_module \<Rightarrow> outcome" where
  "save_assessment get system self =
     (if state self \<noteq> ASSESSING then (Inr (out_of_sync_error get system), self)
      else
        case get ''assessment'' of
          None \<Rightarrow> (Inl (KeyError ''assessment''), self)
        | Some a \<Rightarrow>
            (case py_int system a of
               None \<Rightarrow>
                 (Inr [''success'' \<mapsto> PBool False, ''error'' \<mapsto> PStr ''Non-integer score value''],
                  self)
             | Some sc \<Rightarrow>
                 (case record_latest_score sc self of
                    Inl e \<Rightarrow> (Inl e, self)
                  | Inr self1 \<Rightarrow>
                      let d = [''success'' \<mapsto> PBool True] in
                      if sc = max_score self1 then
                        let self2 = change_state DONE self1;
                            d1 = d(''message_html'' \<mapsto> PStr (get_message_html self2));
                            d2 = d1(''allow_reset'' \<mapsto> PBool (allow_reset self2))
                        in (Inr (d2(''state'' \<mapsto> PStr (state self2))), self2)
                      else
                        let self2 = change_state POST_ASSESSMENT self1
                        in (case get_hint_html system self2 of
                              Inl e \<Rightarrow> (Inl e, self2)
                            | Inr hint_html \<Rightarrow>
                                (Inr (d(''hint_html'' \<mapsto> PStr hint_html,
                                        ''state'' \<mapsto> PStr (state self2))), self2)))))"

definition save_hint :: "payload \<Rightarrow> 'p system \<Rightarrow> self_assessment_module \<Rightarrow> outcome" where
  "save_hint get system self =
     (if state self \<noteq> POST_ASSESSMENT then (Inr (out_of_sync_error get system), self)
      else
        case get ''hint'' of
          None \<Rightarrow> (Inl (KeyError ''hint''), self)
        | Some h \<Rightarrow>
            (case record_latest_post_assessment h self of
               Inl e \<Rightarrow> (Inl e, self)
             | Inr self1 \<Rightarrow>
                 let self2 = change_state DONE self1
                 in (Inr [''success'' \<mapsto> PBool True,
                          ''message_html'' \<mapsto> PStr (get_message_html self2),
                          ''allow_reset'' \<mapsto> PBool (allow_reset self2)], self2)))"

section \<open>The dispatch router\<close>

text \<open>
  \<open>handle_ajax\<close> returns the string \<open>'Error'\<close> for an unknown action and the serialised
  dictionary otherwise; the dictionary is kept as it is before \<open>json.dumps\<close>.
\<close>

datatype response = Error_string | Json dict

definition handlers ::
  "string \<rightharpoonup> (payload \<Rightarrow> 'p system \<Rightarrow> self_assessment_module \<Rightarrow> outcome)" where
  "handlers =
     [''save_answer'' \<mapsto> save_answer,
      ''save_assessment'' \<mapsto> save_assessment,
      ''save_post_assessment'' \<mapsto> save_hint]"

definition handle_ajax ::
  "string \<Rightarrow> payload \<Rightarrow> 'p system \<Rightarrow> self_assessment_module
     \<Rightarrow> (error + response) \<times> self_assessment_module" where
  "handle_ajax dispatch get system self =
     (case handlers dispatch of
        None \<Rightarrow> (Inr Error_string, self)
      | Some handler \<Rightarrow>
          let before = get_progress system self
          in (case handler get system self of
                (Inl e, self1) \<Rightarrow> (Inl e, self1)
              | (Inr d, self1) \<Rightarrow>
                  let after = get_progress system self1
                  in (Inr (Json (d ++ [''progress_changed'' \<mapsto> PBool (after \<noteq> before),
                                       ''progress_status'' \<mapsto> PStr (to_js_status_str system after)])),
                      self1)))"

section \<open>Loading a definition\<close>

text \<open>
  \<open>xml_object.xpath(k)\<close> with a plain tag name selects the children of the element with
  that tag, in document order.
\<close>

definition xpath :: "xml \<Rightarrow> string \<Rightarrow> xml list" where
  "xpath xml_object k = filter (\<lambda>c. tag c = k) (children xml_object)"

definition expected_children :: "string list" where
  "expected_children = [''submitmessage'', ''hintprompt'']"

text \<open>The loop over \<open>expected_children\<close>: the first tag that does not occur once raises.\<close>

fun check_children :: "xml \<Rightarrow> string list \<Rightarrow> error option" where
  "check_children xml_object [] = None"
| "check_children xml_object (child # rest) =
     (if length (xpath xml_object child) \<noteq> 1 then Some (ValueError child)
      else check_children xml_object rest)"

definition parse :: "'p system \<Rightarrow> xml \<Rightarrow> string \<Rightarrow> error + string" where
  "parse system xml_object k =
     (case xpath xml_object k of
        [] \<Rightarrow> Inl IndexError
      | e # _ \<Rightarrow> Inr (stringify_children system e))"

definition definition_from_xml :: "xml \<Rightarrow> 'p system \<Rightarrow> error + (string \<rightharpoonup> string)" where
  "definition_from_xml xml_object system =
     (case check_children xml_object expected_children of
        Some e \<Rightarrow> Inl e
      | None \<Rightarrow>
          (case parse system xml_object ''submitmessage'' of
             Inl e \<Rightarrow> Inl e
           | Inr sm \<Rightarrow>
               (case parse system xml_object ''hintprompt'' of
                  Inl e \<Rightarrow> Inl e
                | Inr hp \<Rightarrow> Inr [''submitmessage'' \<mapsto> sm, ''hintprompt'' \<mapsto> hp])))"

section \<open>Concrete instances for evaluation\<close>

definition demo_system :: "string system" where
  "demo_system =
     \<lparr>render_template = (\<lambda>name context. name),
      render_rubric = (\<lambda>r. r),
      get_progress = (\<lambda>self. state self),
      to_js_status_str = (\<lambda>p. p),
      out_of_sync_text = (\<lambda>get. ''The problem state got out-of-sync''),
      stringify_children = text_of,
      py_int = decimal_int\<rparr>"

definition demo_module :: "string \<Rightarrow> attempt_record list \<Rightarrow> int \<Rightarrow> self_assessment_module" where
  "demo_module st h n =
     \<lparr>state = st, history = h, attempts = n, max_attempts = 2, max_score_attr = 3,
      prompt = ''prompt'', rubric = ''rubric'', hint_prompt = ''hint prompt'',
      submit_message = ''saved''\<rparr>"

definition foo_module :: "string \<Rightarrow> int \<Rightarrow> self_assessment_module" where
  "foo_module st n = demo_module st [\<lparr>answer = ''foo'', score = None, hint = None\<rparr>] n"

definition demo_xml :: "string list \<Rightarrow> xml" where
  "demo_xml tags =
     Element ''selfassessment'' '''' (map (\<lambda>t. Element t (''text of '' @ t) []) tags)"

section \<open>Notions used by the statements\<close>

text \<open>
  A rejection is a result envelope that carries success false and an error field.
\<close>

definition rejection :: "dict \<Rightarrow> bool" where
  "rejection d = (d ''success'' = Some (PBool False) \<and> d ''error'' \<noteq> None)"

text \<open>
  The instances reached from one in state INITIAL by the three actions and by a reset
  that is offered only when \<open>allow_reset\<close> holds.
\<close>

inductive_set reachable :: "'p system \<Rightarrow> self_assessment_module set"
  for system :: "'p system" where
  start: "state self = INITIAL \<Longrightarrow> self \<in> reachable system"
| answer: "self \<in> reachable system \<Longrightarrow> snd (save_answer get system self) \<in> reachable system"
| assess: "self \<in> reachable system \<Longrightarrow> snd (save_assessment get system self) \<in> reachable system"
| hint: "self \<in> reachable system \<Longrightarrow> snd (save_hint get system self) \<in> reachable system"
| again: "self \<in> reachable system \<Longrightarrow> allow_reset self \<Longrightarrow> reset self \<in> reachable system"

section \<open>Basic facts\<close>

lemma states_distinct:
  "INITIAL \<noteq> ASSESSING" "INITIAL \<noteq> POST_ASSESSMENT" "INITIAL \<noteq> DONE"
  "ASSESSING \<noteq> POST_ASSESSMENT" "ASSESSING \<noteq> DONE" "POST_ASSESSMENT \<noteq> DONE"
  "ASSESSING \<noteq> INITIAL" "POST_ASSESSMENT \<noteq> INITIAL" "DONE \<noteq> INITIAL"
  "POST_ASSESSMENT \<noteq> ASSESSING" "DONE \<noteq> ASSESSING" "DONE \<noteq> POST_ASSESSMENT"
  by (simp_all add: state_defs)

lemma get_rubric_html_assessing:
  "state self = ASSESSING \<Longrightarrow>
   get_rubric_html system self =
     Inr (render_template system ''self_assessment_rubric.html''
            [''rubric'' \<mapsto> PStr (render_rubric system (rubric self)),
             ''max_score'' \<mapsto> PInt (max_score_attr self),
             ''read_only'' \<mapsto> PBool False])"
  by (simp add: get_rubric_html_def states_distinct)

lemma get_hint_html_post_assessment:
  "state self = POST_ASSESSMENT \<Longrightarrow>
   get_hint_html system self =
     Inr (render_template system ''self_assessment_hint.html''
            [''hint_prompt'' \<mapsto> PStr (hint_prompt self), ''hint'' \<mapsto> PStr '''',
             ''read_only'' \<mapsto> PBool False])"
  by (simp add: get_hint_html_def states_distinct)

lemma out_of_sync_error_fields:
  "out_of_sync_error get system ''success'' = Some (PBool False)"
  "out_of_sync_error get system ''error'' = Some (PStr (out_of_sync_text system get))"
  by (simp_all add: out_of_sync_error_def)

lemma handlers_table:
  "handlers ''save_answer'' = Some save_answer"
  "handlers ''save_assessment'' = Some save_assessment"
  "handlers ''save_post_assessment'' = Some save_hint"
  "dom handlers = {''save_answer'', ''save_assessment'', ''save_post_assessment''}"
  by (auto simp add: handlers_def)

text \<open>
  None of the three actions raises a ValueError: the view they assemble is asked for
  right after the state has been set to a defined value.
\<close>

lemma never_value_error:
  "fst (save_answer get system self) \<noteq> Inl (ValueError t)"
  "fst (save_assessment get system self) \<noteq> Inl (ValueError t)"
  "fst (save_hint get system self) \<noteq> Inl (ValueError t)"
  by (simp_all add: save_answer_def save_assessment_def save_hint_def
      get_rubric_html_assessing get_hint_html_post_assessment change_state_def
      record_latest_score_def record_latest_post_assessment_def Let_def
      split: option.split)

text \<open>
  Outside INITIAL a reachable instance has a latest AttemptRecord: the actions that set
  a score or a hint on it find one.
\<close>

lemma reachable_history:
  "self \<in> reachable system \<Longrightarrow> state self \<noteq> INITIAL \<Longrightarrow> history self \<noteq> []"
proof (induction rule: reachable.induct)
  case (start self)
  then show ?case by simp
next
  case (answer self get)
  then show ?case
    by (auto simp add: save_answer_def new_history_entry_def change_state_def Let_def
        get_rubric_html_assessing split: if_splits option.splits)
next
  case (assess self get)
  then show ?case
    by (auto simp add: save_assessment_def record_latest_score_def change_state_def Let_def
        get_hint_html_post_assessment states_distinct split: if_splits option.splits)
next
  case (hint self get)
  then show ?case
    by (auto simp add: save_hint_def record_latest_post_assessment_def change_state_def Let_def
        states_distinct split: if_splits option.splits)
next
  case (again self)
  then show ?case by (simp add: reset_def)
qed

subsection \<open>Evaluations\<close>

lemma py_int_3: "py_int demo_system ''3'' = Some 3"
  by (simp add: demo_system_def decimal_int_def strip_def is_space_def unsigned_int_def
      is_digit_def digits_value_def digit_value_def)

lemma py_int_1: "py_int demo_system ''1'' = Some 1"
  by (simp add: demo_system_def decimal_int_def strip_def is_space_def unsigned_int_def
      is_digit_def digits_value_def digit_value_def)

lemma py_int_abc: "py_int demo_system ''abc'' = None"
  by (simp add: demo_system_def decimal_int_def strip_def is_space_def unsigned_int_def
      is_digit_def)

lemma decimal_int_padded_negative: "decimal_int '' -12 '' = Some (- 12)"
  by (simp add: decimal_int_def strip_def is_space_def unsigned_int_def is_digit_def
      digits_value_def digit_value_def)

lemma decimal_int_no_break_space: "decimal_int [CHR 0xA0, CHR ''3'', CHR 0x85] = Some 3"
  by (simp add: decimal_int_def strip_def is_space_def unsigned_int_def is_digit_def
      digits_value_def digit_value_def)

lemma py_int_no_break_space: "py_int demo_system [CHR 0xA0, CHR ''3''] = Some 3"
  by (simp add: demo_system_def decimal_int_def strip_def is_space_def unsigned_int_def
      is_digit_def digits_value_def digit_value_def)

text \<open>
  A score padded with a no-break space is read as 3 by this instance, and the action
  records it and moves to DONE.
\<close>

lemma demo_save_assessment_no_break_space:
  "snd (save_assessment [''assessment'' \<mapsto> [CHR 0xA0, CHR ''3'']] demo_system
          (foo_module ASSESSING 0))
     = demo_module DONE [\<lparr>answer = ''foo'', score = Some 3, hint = None\<rparr>] 0"
  by (simp add: save_assessment_def foo_module_def demo_module_def py_int_no_break_space
      record_latest_score_def max_score_def change_state_def Let_def)

lemma demo_progress:
  "get_progress demo_system self = state self"
  "to_js_status_str demo_system p = p"
  by (simp_all add: demo_system_def)

lemma demo_save_assessment_3:
  "save_assessment [''assessment'' \<mapsto> ''3''] demo_system (foo_module ASSESSING 0)
     = (Inr [''success'' \<mapsto> PBool True,
             ''message_html'' \<mapsto> PStr (get_message_html
                (demo_module DONE [\<lparr>answer = ''foo'', score = Some 3, hint = None\<rparr>] 0)),
             ''allow_reset'' \<mapsto> PBool True, ''state'' \<mapsto> PStr DONE],
        demo_module DONE [\<lparr>answer = ''foo'', score = Some 3, hint = None\<rparr>] 0)"
  by (simp add: save_assessment_def foo_module_def demo_module_def py_int_3
      record_latest_score_def max_score_def change_state_def allow_reset_def Let_def)

lemma demo_save_hint_done:
  "save_hint [''hint'' \<mapsto> ''h''] demo_system (foo_module DONE 0)
     = (Inr (out_of_sync_error [''hint'' \<mapsto> ''h''] demo_system), foo_module DONE 0)"
  by (simp add: save_hint_def foo_module_def demo_module_def states_distinct)

text \<open>
  The scenario of the spec (section 8) with \<open>max_attempts = 2\<close> and \<open>max_score = 3\<close>:
  answer, full score, reset, second answer, lower score, hint.
\<close>

lemma end_to_end_scenario:
  "snd (save_answer [''student_answer'' \<mapsto> ''foo''] demo_system (demo_module INITIAL [] 0))
     = foo_module ASSESSING 0"
  "snd (save_assessment [''assessment'' \<mapsto> ''3''] demo_system (foo_module ASSESSING 0))
     = demo_module DONE [\<lparr>answer = ''foo'', score = Some 3, hint = None\<rparr>] 0"
  "allow_reset (demo_module DONE [\<lparr>answer = ''foo'', score = Some 3, hint = None\<rparr>] 0)"
  "reset (demo_module DONE [\<lparr>answer = ''foo'', score = Some 3, hint = None\<rparr>] 0)
     = demo_module INITIAL [\<lparr>answer = ''foo'', score = Some 3, hint = None\<rparr>] 1"
  "snd (save_answer [''student_answer'' \<mapsto> ''bar''] demo_system
          (demo_module INITIAL [\<lparr>answer = ''foo'', score = Some 3, hint = None\<rparr>] 1))
     = demo_module ASSESSING [\<lparr>answer = ''foo'', score = Some 3, hint = None\<rparr>,
                              \<lparr>answer = ''bar'', score = None, hint = None\<rparr>] 1"
  "snd (save_assessment [''assessment'' \<mapsto> ''1''] demo_system
          (demo_module ASSESSING [\<lparr>answer = ''foo'', score = Some 3, hint = None\<rparr>,
                                  \<lparr>answer = ''bar'', score = None, hint = None\<rparr>] 1))
     = demo_module POST_ASSESSMENT [\<lparr>answer = ''foo'', score = Some 3, hint = None\<rparr>,
                                    \<lparr>answer = ''bar'', score = Some 1, hint = None\<rparr>] 1"
  "snd (save_hint [''hint'' \<mapsto> ''try again''] demo_system
          (demo_module POST_ASSESSMENT [\<lparr>answer = ''foo'', score = Some 3, hint = None\<rparr>,
                                        \<lparr>answer = ''bar'', score = Some 1, hint = None\<rparr>] 1))
     = demo_module DONE [\<lparr>answer = ''foo'', score = Some 3, hint = None\<rparr>,
                         \<lparr>answer = ''bar'', score = Some 1, hint = Some ''try again''\<rparr>] 1"
  by (simp_all add: save_answer_def save_assessment_def save_hint_def reset_def allow_reset_def
      new_history_entry_def record_latest_score_def record_latest_post_assessment_def
      change_state_def max_score_def get_rubric_html_assessing get_hint_html_post_assessment
      py_int_3 py_int_1 foo_module_def demo_module_def states_distinct Let_def)

section \<open>Out-of-order calls\<close>

text \<open>
  C1: for every state and each of the three actions, invoking the action while the state
  differs from the one it requires (INITIAL for \<open>save_answer\<close>, ASSESSING for
  \<open>save_assessment\<close>, POST_ASSESSMENT for \<open>save_hint\<close>) returns a dictionary with
  success false and leaves the whole instance, so its state and its history, as it was.
  In particular \<open>save_hint\<close> called again in DONE returns the out-of-sync rejection and
  is not applied a second time.
\<close>

theorem out_of_sync_rejected:
  "(state self \<noteq> INITIAL \<longrightarrow>
      (\<exists>d. save_answer get system self = (Inr d, self) \<and> d ''success'' = Some (PBool False)))
   \<and> (state self \<noteq> ASSESSING \<longrightarrow>
      (\<exists>d. save_assessment get system self = (Inr d, self) \<and> d ''success'' = Some (PBool False)))
   \<and> (state self \<noteq> POST_ASSESSMENT \<longrightarrow>
      (\<exists>d. save_hint get system self = (Inr d, self) \<and> d ''success'' = Some (PBool False)))
   \<and> (state self = DONE \<longrightarrow>
      save_hint get system self = (Inr (out_of_sync_error get system), self))"
  by (simp add: save_answer_def save_assessment_def save_hint_def out_of_sync_error_fields
      states_distinct)

theorem out_of_sync_rejected_witness:
  "state (demo_module DONE [\<lparr>answer = ''bar'', score = Some 1, hint = Some ''try again''\<rparr>] 1)
     = DONE
   \<and> save_hint [''hint'' \<mapsto> ''again''] demo_system
       (demo_module DONE [\<lparr>answer = ''bar'', score = Some 1, hint = Some ''try again''\<rparr>] 1)
     = (Inr (out_of_sync_error [''hint'' \<mapsto> ''again''] demo_system),
        demo_module DONE [\<lparr>answer = ''bar'', score = Some 1, hint = Some ''try again''\<rparr>] 1)
   \<and> (\<exists>d. save_answer [''student_answer'' \<mapsto> ''x''] demo_system
             (demo_module DONE [\<lparr>answer = ''bar'', score = Some 1, hint = Some ''try again''\<rparr>] 1)
           = (Inr d, demo_module DONE
                [\<lparr>answer = ''bar'', score = Some 1, hint = Some ''try again''\<rparr>] 1)
         \<and> d ''success'' = Some (PBool False))"
  using out_of_sync_rejected
    [of "demo_module DONE [\<lparr>answer = ''bar'', score = Some 1, hint = Some ''try again''\<rparr>] 1"
      "[''student_answer'' \<mapsto> ''x'']" demo_system]
    out_of_sync_rejected
    [of "demo_module DONE [\<lparr>answer = ''bar'', score = Some 1, hint = Some ''try again''\<rparr>] 1"
      "[''hint'' \<mapsto> ''again'']" demo_system]
  by (simp add: demo_module_def state_defs)

section \<open>Recording the self-assessment\<close>

text \<open>
  C2: in state ASSESSING, \<open>save_assessment\<close> with a payload whose \<open>assessment\<close> string
  is not an integer (\<open>int\<close> raises ValueError on it) returns the dictionary with success
  false and the error \<open>Non-integer score value\<close> and leaves the instance as it was. When
  \<open>int\<close> parses the string to an integer the score of the latest AttemptRecord is set to
  it, the other records stay as they are, the call succeeds, and the state becomes DONE
  when the integer equals \<open>max_score\<close> and POST_ASSESSMENT otherwise. This holds for
  whatever strings \<open>int\<close> accepts. The latest record exists in every instance that is
  reachable outside INITIAL (lemma \<open>reachable_history\<close>).
\<close>

theorem save_assessment_transitions:
  assumes "state self = ASSESSING"
    and "get ''assessment'' = Some a"
  shows "(py_int system a = None \<longrightarrow>
            save_assessment get system self =
              (Inr [''success'' \<mapsto> PBool False, ''error'' \<mapsto> PStr ''Non-integer score value''],
               self))
         \<and> (\<forall>n. py_int system a = Some n \<and> history self \<noteq> [] \<longrightarrow>
              (\<exists>d self'. save_assessment get system self = (Inr d, self')
                 \<and> d ''success'' = Some (PBool True)
                 \<and> state self' = (if n = max_score self then DONE else POST_ASSESSMENT)
                 \<and> history self'
                     = butlast (history self) @ [(last (history self))\<lparr>score := Some n\<rparr>]))"
  using assms
  by (simp add: save_assessment_def record_latest_score_def max_score_def change_state_def
      get_hint_html_post_assessment Let_def)

theorem save_assessment_transitions_witness:
  "(\<exists>d self'. save_assessment [''assessment'' \<mapsto> ''3''] demo_system (foo_module ASSESSING 0)
        = (Inr d, self')
      \<and> d ''success'' = Some (PBool True) \<and> state self' = DONE
      \<and> history self' = [\<lparr>answer = ''foo'', score = Some 3, hint = None\<rparr>])
   \<and> (\<exists>d self'. save_assessment [''assessment'' \<mapsto> ''1''] demo_system (foo_module ASSESSING 0)
        = (Inr d, self')
      \<and> d ''success'' = Some (PBool True) \<and> state self' = POST_ASSESSMENT
      \<and> history self' = [\<lparr>answer = ''foo'', score = Some 1, hint = None\<rparr>])
   \<and> save_assessment [''assessment'' \<mapsto> ''abc''] demo_system (foo_module ASSESSING 0)
       = (Inr [''success'' \<mapsto> PBool False, ''error'' \<mapsto> PStr ''Non-integer score value''],
          foo_module ASSESSING 0)"
  using save_assessment_transitions
    [of "foo_module ASSESSING 0" "[''assessment'' \<mapsto> ''3'']" "''3''" demo_system]
    save_assessment_transitions
    [of "foo_module ASSESSING 0" "[''assessment'' \<mapsto> ''1'']" "''1''" demo_system]
    save_assessment_transitions
    [of "foo_module ASSESSING 0" "[''assessment'' \<mapsto> ''abc'']" "''abc''" demo_system]
  by (simp add: foo_module_def demo_module_def py_int_3 py_int_1 py_int_abc max_score_def
      states_distinct)

section \<open>Submitting an answer\<close>

text \<open>
  C3: \<open>save_answer\<close> compares \<open>attempts\<close> with \<open>max_attempts\<close> by a strict
  greater-than. With \<open>attempts > max_attempts\<close> the submission is blocked with the error
  \<open>Too many attempts.\<close>; with \<open>attempts = max_attempts\<close> the guard does not fire and
  the state check decides: outside INITIAL the call is out of sync, and in INITIAL with
  a \<open>student_answer\<close> in the payload the submission is accepted.
\<close>

theorem save_answer_strict_guard:
  "(attempts self > max_attempts self \<longrightarrow>
      save_answer get system self =
        (Inr [''success'' \<mapsto> PBool False, ''error'' \<mapsto> PStr ''Too many attempts.''], self))
   \<and> (attempts self = max_attempts self \<and> state self \<noteq> INITIAL \<longrightarrow>
        save_answer get system self = (Inr (out_of_sync_error get system), self))
   \<and> (attempts self = max_attempts self \<and> state self = INITIAL
        \<and> get ''student_answer'' = Some a \<longrightarrow>
        (\<exists>d self'. save_answer get system self = (Inr d, self')
           \<and> d ''success'' = Some (PBool True) \<and> d ''error'' = None
           \<and> state self' = ASSESSING))"
  by (simp add: save_answer_def get_rubric_html_assessing change_state_def new_history_entry_def)

theorem save_answer_strict_guard_witness:
  "attempts (demo_module INITIAL [] 2) = max_attempts (demo_module INITIAL [] 2)
   \<and> (\<exists>d self'. save_answer [''student_answer'' \<mapsto> ''foo''] demo_system (demo_module INITIAL [] 2)
          = (Inr d, self')
        \<and> d ''success'' = Some (PBool True) \<and> d ''error'' = None \<and> state self' = ASSESSING)
   \<and> attempts (demo_module INITIAL [] 3) > max_attempts (demo_module INITIAL [] 3)
   \<and> save_answer [''student_answer'' \<mapsto> ''foo''] demo_system (demo_module INITIAL [] 3)
       = (Inr [''success'' \<mapsto> PBool False, ''error'' \<mapsto> PStr ''Too many attempts.''],
          demo_module INITIAL [] 3)"
  using save_answer_strict_guard
    [of "demo_module INITIAL [] 2" "[''student_answer'' \<mapsto> ''foo'']" demo_system "''foo''"]
    save_answer_strict_guard
    [of "demo_module INITIAL [] 3" "[''student_answer'' \<mapsto> ''foo'']" demo_system "''foo''"]
  by (auto simp add: demo_module_def)

text \<open>
  C4: with \<open>attempts \<le> max_attempts\<close>, state INITIAL and a \<open>student_answer\<close> in the
  payload, \<open>save_answer\<close> succeeds, the state becomes ASSESSING, and the history is the
  old history followed by exactly one new AttemptRecord that holds the supplied answer
  and neither score nor hint; the records that were there are the same.
\<close>

theorem save_answer_appends:
  assumes "attempts self \<le> max_attempts self"
    and "state self = INITIAL"
    and "get ''student_answer'' = Some a"
  shows "\<exists>d self'. save_answer get system self = (Inr d, self')
           \<and> d ''success'' = Some (PBool True)
           \<and> state self' = ASSESSING
           \<and> history self' = history self @ [\<lparr>answer = a, score = None, hint = None\<rparr>]
           \<and> length (history self') = Suc (length (history self))
           \<and> take (length (history self)) (history self') = history self"
  using assms
  by (simp add: save_answer_def get_rubric_html_assessing change_state_def new_history_entry_def)

theorem save_answer_appends_witness:
  "\<exists>d self'. save_answer [''student_answer'' \<mapsto> ''bar''] demo_system (foo_module INITIAL 1)
        = (Inr d, self')
      \<and> d ''success'' = Some (PBool True)
      \<and> state self' = ASSESSING
      \<and> history self' = [\<lparr>answer = ''foo'', score = None, hint = None\<rparr>,
                          \<lparr>answer = ''bar'', score = None, hint = None\<rparr>]"
  using save_answer_appends
    [of "foo_module INITIAL 1" "[''student_answer'' \<mapsto> ''bar'']" "''bar''" demo_system]
  by (auto simp add: foo_module_def demo_module_def)

section \<open>Recording the hint\<close>

text \<open>
  C5: in state POST_ASSESSMENT, \<open>save_hint\<close> with a \<open>hint\<close> in the payload succeeds,
  the state becomes DONE, and the hint of the most recent AttemptRecord is the supplied
  text, the rest of the history being the same. The most recent record exists in every
  instance that is reachable outside INITIAL (lemma \<open>reachable_history\<close>).
\<close>

theorem save_hint_done:
  assumes "state self = POST_ASSESSMENT"
    and "get ''hint'' = Some h"
    and "history self \<noteq> []"
  shows "\<exists>d self'. save_hint get system self = (Inr d, self')
           \<and> d ''success'' = Some (PBool True)
           \<and> state self' = DONE
           \<and> history self' = butlast (history self) @ [(last (history self))\<lparr>hint := Some h\<rparr>]
           \<and> hint (last (history self')) = Some h"
  using assms
  by (simp add: save_hint_def record_latest_post_assessment_def change_state_def Let_def)

theorem save_hint_done_witness:
  "\<exists>d self'. save_hint [''hint'' \<mapsto> ''try again''] demo_system
        (demo_module POST_ASSESSMENT
           [\<lparr>answer = ''foo'', score = Some 3, hint = None\<rparr>,
            \<lparr>answer = ''bar'', score = Some 1, hint = None\<rparr>] 1)
        = (Inr d, self')
      \<and> d ''success'' = Some (PBool True) \<and> state self' = DONE
      \<and> history self' = [\<lparr>answer = ''foo'', score = Some 3, hint = None\<rparr>,
                          \<lparr>answer = ''bar'', score = Some 1, hint = Some ''try again''\<rparr>]"
  using save_hint_done
    [of "demo_module POST_ASSESSMENT
           [\<lparr>answer = ''foo'', score = Some 3, hint = None\<rparr>,
            \<lparr>answer = ''bar'', score = Some 1, hint = None\<rparr>] 1"
      "[''hint'' \<mapsto> ''try again'']" "''try again''" demo_system]
  by (auto simp add: demo_module_def)

section \<open>The response envelope\<close>

text \<open>
  C6: for an action identifier that is none of \<open>save_answer\<close>, \<open>save_assessment\<close> and
  \<open>save_post_assessment\<close>, \<open>handle_ajax\<close> returns the generic \<open>Error\<close> result and the
  instance is untouched. For a recognised action whose handler returns a dictionary (the
  action succeeded, failed validation or was out of sync), the response is that
  dictionary with two more fields: \<open>progress_changed\<close>, which compares the progress
  after the call with the progress before it, and \<open>progress_status\<close>, the status string
  of the progress after the call.
\<close>

theorem handle_ajax_envelope:
  "(dispatch \<notin> {''save_answer'', ''save_assessment'', ''save_post_assessment''} \<longrightarrow>
      handle_ajax dispatch get system self = (Inr Error_string, self))
   \<and> (\<forall>handler d self1.
        handlers dispatch = Some handler \<and> handler get system self = (Inr d, self1) \<longrightarrow>
        (\<exists>env. handle_ajax dispatch get system self = (Inr (Json env), self1)
           \<and> env ''progress_changed''
               = Some (PBool (get_progress system self1 \<noteq> get_progress system self))
           \<and> env ''progress_status''
               = Some (PStr (to_js_status_str system (get_progress system self1)))
           \<and> (\<forall>k. k \<notin> {''progress_changed'', ''progress_status''} \<longrightarrow> env k = d k)))"
proof (intro conjI impI allI)
  assume "dispatch \<notin> {''save_answer'', ''save_assessment'', ''save_post_assessment''}"
  then have "handlers dispatch
      = (None :: (payload \<Rightarrow> 'a system \<Rightarrow> self_assessment_module \<Rightarrow> outcome) option)"
    by (simp add: handlers_def)
  then show "handle_ajax dispatch get system self = (Inr Error_string, self)"
    by (simp add: handle_ajax_def)
next
  fix handler d self1
  assume "handlers dispatch = Some handler \<and> handler get system self = (Inr d, self1)"
  then show "\<exists>env. handle_ajax dispatch get system self = (Inr (Json env), self1)
           \<and> env ''progress_changed''
               = Some (PBool (get_progress system self1 \<noteq> get_progress system self))
           \<and> env ''progress_status''
               = Some (PStr (to_js_status_str system (get_progress system self1)))
           \<and> (\<forall>k. k \<notin> {''progress_changed'', ''progress_status''} \<longrightarrow> env k = d k)"
    by (simp add: handle_ajax_def Let_def map_add_def)
qed

theorem handle_ajax_envelope_witness:
  "handle_ajax ''reset'' Map.empty demo_system (foo_module DONE 0)
     = (Inr Error_string, foo_module DONE 0)
   \<and> (\<exists>env. handle_ajax ''save_assessment'' [''assessment'' \<mapsto> ''3''] demo_system
               (foo_module ASSESSING 0)
             = (Inr (Json env),
                demo_module DONE [\<lparr>answer = ''foo'', score = Some 3, hint = None\<rparr>] 0)
         \<and> env ''progress_changed'' = Some (PBool True)
         \<and> env ''progress_status'' = Some (PStr DONE)
         \<and> env ''success'' = Some (PBool True))
   \<and> (\<exists>env. handle_ajax ''save_post_assessment'' [''hint'' \<mapsto> ''h''] demo_system
               (foo_module DONE 0)
             = (Inr (Json env), foo_module DONE 0)
         \<and> env ''progress_changed'' = Some (PBool False)
         \<and> env ''progress_status'' = Some (PStr DONE)
         \<and> env ''success'' = Some (PBool False))"
proof (intro conjI)
  show "handle_ajax ''reset'' Map.empty demo_system (foo_module DONE 0)
          = (Inr Error_string, foo_module DONE 0)"
    using handle_ajax_envelope [of "''reset''" Map.empty demo_system "foo_module DONE 0"]
    by simp
next
  from handle_ajax_envelope [of "''save_assessment''" "[''assessment'' \<mapsto> ''3'']" demo_system
      "foo_module ASSESSING 0", THEN conjunct2, rule_format,
      OF conjI [OF handlers_table(2) demo_save_assessment_3]]
  obtain env where e:
    "handle_ajax ''save_assessment'' [''assessment'' \<mapsto> ''3''] demo_system (foo_module ASSESSING 0)
       = (Inr (Json env),
          demo_module DONE [\<lparr>answer = ''foo'', score = Some 3, hint = None\<rparr>] 0)"
    "env ''progress_changed''
       = Some (PBool (get_progress demo_system
                        (demo_module DONE [\<lparr>answer = ''foo'', score = Some 3, hint = None\<rparr>] 0)
                      \<noteq> get_progress demo_system (foo_module ASSESSING 0)))"
    "env ''progress_status''
       = Some (PStr (to_js_status_str demo_system (get_progress demo_system
                        (demo_module DONE [\<lparr>answer = ''foo'', score = Some 3, hint = None\<rparr>] 0))))"
    "env ''success'' = Some (PBool True)"
    by (elim exE conjE) simp
  have "state (demo_module DONE [\<lparr>answer = ''foo'', score = Some 3, hint = None\<rparr>] 0) = DONE"
    "state (foo_module ASSESSING 0) = ASSESSING"
    by (simp_all add: demo_module_def foo_module_def)
  with e show "\<exists>env. handle_ajax ''save_assessment'' [''assessment'' \<mapsto> ''3''] demo_system
               (foo_module ASSESSING 0)
             = (Inr (Json env),
                demo_module DONE [\<lparr>answer = ''foo'', score = Some 3, hint = None\<rparr>] 0)
         \<and> env ''progress_changed'' = Some (PBool True)
         \<and> env ''progress_status'' = Some (PStr DONE)
         \<and> env ''success'' = Some (PBool True)"
    by (simp add: demo_progress states_distinct)
next
  from handle_ajax_envelope [of "''save_post_assessment''" "[''hint'' \<mapsto> ''h'']" demo_system
      "foo_module DONE 0", THEN conjunct2, rule_format,
      OF conjI [OF handlers_table(3) demo_save_hint_done]]
  obtain env where e:
    "handle_ajax ''save_post_assessment'' [''hint'' \<mapsto> ''h''] demo_system (foo_module DONE 0)
       = (Inr (Json env), foo_module DONE 0)"
    "env ''progress_changed''
       = Some (PBool (get_progress demo_system (foo_module DONE 0)
                      \<noteq> get_progress demo_system (foo_module DONE 0)))"
    "env ''progress_status''
       = Some (PStr (to_js_status_str demo_system (get_progress demo_system (foo_module DONE 0))))"
    "env ''success'' = Some (PBool False)"
    by (elim exE conjE) (simp add: out_of_sync_error_fields)
  have "state (foo_module DONE 0) = DONE"
    by (simp add: demo_module_def foo_module_def)
  with e show "\<exists>env. handle_ajax ''save_post_assessment'' [''hint'' \<mapsto> ''h''] demo_system
               (foo_module DONE 0)
             = (Inr (Json env), foo_module DONE 0)
         \<and> env ''progress_changed'' = Some (PBool False)
         \<and> env ''progress_status'' = Some (PStr DONE)
         \<and> env ''success'' = Some (PBool False)"
    by (simp add: demo_progress)
qed

section \<open>Misuse is answered, not raised\<close>

text \<open>
  C7, as amended: an action called in the wrong state, \<open>save_answer\<close> called beyond the
  attempt limit, and \<open>save_assessment\<close> called with an \<open>assessment\<close> that is not an
  integer (\<open>int\<close> raises ValueError on it, whatever strings \<open>int\<close> accepts) each return a
  rejection, a dictionary with success false and an error field, and leave the instance
  as it was; no exception is raised. A payload that lacks the key
  the action reads (\<open>student_answer\<close>, \<open>assessment\<close>, \<open>hint\<close>), in the state where the
  action is otherwise legal, raises KeyError: the methods index the payload without a
  check and only ValueError is caught.
\<close>

theorem misuse_returns_envelope:
  "(attempts self > max_attempts self \<or> state self \<noteq> INITIAL \<longrightarrow>
      (\<exists>d. save_answer get system self = (Inr d, self) \<and> rejection d))
   \<and> (state self \<noteq> ASSESSING
        \<or> (\<exists>a. get ''assessment'' = Some a \<and> py_int system a = None) \<longrightarrow>
      (\<exists>d. save_assessment get system self = (Inr d, self) \<and> rejection d))
   \<and> (state self \<noteq> POST_ASSESSMENT \<longrightarrow>
      (\<exists>d. save_hint get system self = (Inr d, self) \<and> rejection d))
   \<and> (attempts self \<le> max_attempts self \<and> state self = INITIAL
        \<and> get ''student_answer'' = None \<longrightarrow>
      save_answer get system self = (Inl (KeyError ''student_answer''), self))
   \<and> (state self = ASSESSING \<and> get ''assessment'' = None \<longrightarrow>
      save_assessment get system self = (Inl (KeyError ''assessment''), self))
   \<and> (state self = POST_ASSESSMENT \<and> get ''hint'' = None \<longrightarrow>
      save_hint get system self = (Inl (KeyError ''hint''), self))"
  by (auto simp add: save_answer_def save_assessment_def save_hint_def rejection_def
      out_of_sync_error_def)

theorem misuse_returns_envelope_witness:
  "(\<exists>d. save_answer [''student_answer'' \<mapsto> ''x''] demo_system (foo_module INITIAL 3)
          = (Inr d, foo_module INITIAL 3) \<and> rejection d)
   \<and> (\<exists>d. save_assessment [''assessment'' \<mapsto> ''abc''] demo_system (foo_module ASSESSING 0)
          = (Inr d, foo_module ASSESSING 0) \<and> rejection d)
   \<and> (\<exists>d. save_hint [''hint'' \<mapsto> ''h''] demo_system (foo_module DONE 0)
          = (Inr d, foo_module DONE 0) \<and> rejection d)
   \<and> save_hint Map.empty demo_system (foo_module POST_ASSESSMENT 0)
       = (Inl (KeyError ''hint''), foo_module POST_ASSESSMENT 0)"
  using misuse_returns_envelope
      [of "foo_module INITIAL 3" "[''student_answer'' \<mapsto> ''x'']" demo_system]
    misuse_returns_envelope
      [of "foo_module ASSESSING 0" "[''assessment'' \<mapsto> ''abc'']" demo_system]
    misuse_returns_envelope [of "foo_module DONE 0" "[''hint'' \<mapsto> ''h'']" demo_system]
    misuse_returns_envelope [of "foo_module POST_ASSESSMENT 0" Map.empty demo_system]
  by (simp add: foo_module_def demo_module_def py_int_abc states_distinct)

text \<open>
  C7 as stated fails on malformed input: in state ASSESSING, \<open>save_assessment\<close> with a
  payload that has no \<open>assessment\<close> field raises KeyError, and the exception passes
  through \<open>handle_ajax\<close>; no result envelope is returned.
\<close>

theorem missing_key_raises_counterexample:
  "save_assessment Map.empty demo_system (foo_module ASSESSING 0)
     = (Inl (KeyError ''assessment''), foo_module ASSESSING 0)
   \<and> handle_ajax ''save_assessment'' Map.empty demo_system (foo_module ASSESSING 0)
     = (Inl (KeyError ''assessment''), foo_module ASSESSING 0)"
  by (simp add: handle_ajax_def handlers_table save_assessment_def foo_module_def demo_module_def)

section \<open>Illegal states in the view assembly\<close>

text \<open>
  C8: for a state outside INITIAL, ASSESSING, POST_ASSESSMENT and DONE, both
  \<open>get_rubric_html\<close> and \<open>get_hint_html\<close> raise ValueError for that state instead of
  returning a view; for each of the four defined states both return a view.
\<close>

theorem view_illegal_state:
  "(state self \<notin> {INITIAL, ASSESSING, POST_ASSESSMENT, DONE} \<longrightarrow>
      get_rubric_html system self = Inl (ValueError (state self))
      \<and> get_hint_html system self = Inl (ValueError (state self)))
   \<and> (state self \<in> {INITIAL, ASSESSING, POST_ASSESSMENT, DONE} \<longrightarrow>
        (\<exists>v. get_rubric_html system self = Inr v) \<and> (\<exists>v. get_hint_html system self = Inr v))"
  by (auto simp add: get_rubric_html_def get_hint_html_def Let_def states_distinct)

theorem view_illegal_state_witness:
  "get_rubric_html demo_system (foo_module ''grading'' 0) = Inl (ValueError ''grading'')
   \<and> get_hint_html demo_system (foo_module ''grading'' 0) = Inl (ValueError ''grading'')
   \<and> (\<exists>v. get_rubric_html demo_system (foo_module DONE 0) = Inr v)
   \<and> (\<exists>v. get_hint_html demo_system (foo_module DONE 0) = Inr v)"
  using view_illegal_state [of "foo_module ''grading'' 0" demo_system]
    view_illegal_state [of "foo_module DONE 0" demo_system]
  by (simp add: foo_module_def demo_module_def state_defs)

section \<open>Validation of the definition\<close>

text \<open>
  C9: \<open>definition_from_xml\<close> raises ValueError when the XML does not hold exactly one
  \<open>submitmessage\<close> child, or holds one but not exactly one \<open>hintprompt\<close> child (the
  element is absent or duplicated); otherwise it returns a dictionary whose keys are
  exactly \<open>submitmessage\<close> and \<open>hintprompt\<close>, each with the text of its one child. The
  check belongs to loading: none of the three actions ever raises a ValueError.
\<close>

theorem definition_from_xml_validates:
  "(length (xpath xml_object ''submitmessage'') \<noteq> 1 \<longrightarrow>
      definition_from_xml xml_object system = Inl (ValueError ''submitmessage''))
   \<and> (length (xpath xml_object ''submitmessage'') = 1
        \<and> length (xpath xml_object ''hintprompt'') \<noteq> 1 \<longrightarrow>
      definition_from_xml xml_object system = Inl (ValueError ''hintprompt''))
   \<and> (length (xpath xml_object ''submitmessage'') = 1
        \<and> length (xpath xml_object ''hintprompt'') = 1 \<longrightarrow>
      (\<exists>d. definition_from_xml xml_object system = Inr d
         \<and> dom d = {''submitmessage'', ''hintprompt''}
         \<and> d ''submitmessage''
             = Some (stringify_children system (hd (xpath xml_object ''submitmessage'')))
         \<and> d ''hintprompt''
             = Some (stringify_children system (hd (xpath xml_object ''hintprompt'')))))
   \<and> (\<forall>t. fst (save_answer get system self) \<noteq> Inl (ValueError t)
          \<and> fst (save_assessment get system self) \<noteq> Inl (ValueError t)
          \<and> fst (save_hint get system self) \<noteq> Inl (ValueError t))"
proof (intro conjI impI allI)
  assume "length (xpath xml_object ''submitmessage'') \<noteq> 1"
  then show "definition_from_xml xml_object system = Inl (ValueError ''submitmessage'')"
    by (simp add: definition_from_xml_def expected_children_def)
next
  assume "length (xpath xml_object ''submitmessage'') = 1
        \<and> length (xpath xml_object ''hintprompt'') \<noteq> 1"
  then show "definition_from_xml xml_object system = Inl (ValueError ''hintprompt'')"
    by (simp add: definition_from_xml_def expected_children_def)
next
  assume "length (xpath xml_object ''submitmessage'') = 1
        \<and> length (xpath xml_object ''hintprompt'') = 1"
  then obtain s p where "xpath xml_object ''submitmessage'' = [s]"
    and "xpath xml_object ''hintprompt'' = [p]"
    by (auto simp add: length_Suc_conv)
  then show "\<exists>d. definition_from_xml xml_object system = Inr d
         \<and> dom d = {''submitmessage'', ''hintprompt''}
         \<and> d ''submitmessage''
             = Some (stringify_children system (hd (xpath xml_object ''submitmessage'')))
         \<and> d ''hintprompt''
             = Some (stringify_children system (hd (xpath xml_object ''hintprompt'')))"
    by (auto simp add: definition_from_xml_def expected_children_def parse_def)
qed (simp_all add: never_value_error)

theorem definition_from_xml_validates_witness:
  "definition_from_xml (demo_xml [''hintprompt'']) demo_system = Inl (ValueError ''submitmessage'')
   \<and> definition_from_xml (demo_xml [''submitmessage'', ''hintprompt'', ''hintprompt'']) demo_system
       = Inl (ValueError ''hintprompt'')
   \<and> (\<exists>d. definition_from_xml (demo_xml [''hintprompt'', ''submitmessage'']) demo_system = Inr d
         \<and> dom d = {''submitmessage'', ''hintprompt''}
         \<and> d ''submitmessage'' = Some ''text of submitmessage''
         \<and> d ''hintprompt'' = Some ''text of hintprompt'')"
  using definition_from_xml_validates [of "demo_xml [''hintprompt'']" demo_system]
    definition_from_xml_validates
      [of "demo_xml [''submitmessage'', ''hintprompt'', ''hintprompt'']" demo_system]
    definition_from_xml_validates
      [of "demo_xml [''hintprompt'', ''submitmessage'']" demo_system]
  by (simp add: demo_xml_def xpath_def demo_system_def)

section \<open>The attempt limit comes first\<close>

text \<open>
  C10: in \<open>save_answer\<close> the attempt-limit guard is evaluated before the state check. With
  \<open>attempts > max_attempts\<close> the call returns the dictionary with success false and the
  error \<open>Too many attempts.\<close> and leaves the instance as it was, in every state, also
  outside INITIAL where the call would otherwise be out of sync.
\<close>

theorem save_answer_limit_first:
  assumes "attempts self > max_attempts self"
  shows "save_answer get system self =
           (Inr [''success'' \<mapsto> PBool False, ''error'' \<mapsto> PStr ''Too many attempts.''], self)"
  using assms by (simp add: save_answer_def)

theorem save_answer_limit_first_witness:
  "attempts (demo_module DONE [] 3) > max_attempts (demo_module DONE [] 3) \<and>
   state (demo_module DONE [] 3) \<noteq> INITIAL \<and>
   save_answer Map.empty demo_system (demo_module DONE [] 3) =
     (Inr [''success'' \<mapsto> PBool False, ''error'' \<mapsto> PStr ''Too many attempts.''],
      demo_module DONE [] 3)"
  using save_answer_limit_first [of "demo_module DONE [] 3" Map.empty demo_system]
  by (simp add: demo_module_def state_defs)

end
